theory Spec2Isabelle
  imports Main "HOL-Library.Sublist"
begin

section \<open>Python values, errors and built-ins used by the sources\<close>

text \<open>
  The three source files are Python. Exceptions are values: a computation that can raise
  returns \<open>py_error + 'a\<close>, with \<open>Inl\<close> the exception. \<open>ExternalError\<close> stands for
  any exception raised inside a collaborator module that the sources only call.
\<close>

datatype py_error = IndexError | KeyError | ValueError | ExternalError string

text \<open>The scalar values that the dictionaries of the sources hold.\<close>

datatype py_value = PyNone | PyBool bool | PyInt int | PyStr string

text \<open>
  A dictionary display \<open>{k1: v1, ...}\<close> is the list of its items in source order;
  \<open>map_of\<close> is the lookup. The keys of every display in the sources are distinct.
\<close>

type_synonym py_dict = "(string \<times> py_value) list"

definition opt_str :: "string option \<Rightarrow> py_value" where
  "opt_str v = (case v of None \<Rightarrow> PyNone | Some s \<Rightarrow> PyStr s)"

text \<open>Truth value of a \<open>str|None\<close> in a condition: \<open>None\<close> and \<open>''\<close> are false.\<close>

definition truthy :: "string option \<Rightarrow> bool" where
  "truthy v = (case v of None \<Rightarrow> False | Some s \<Rightarrow> s \<noteq> [])"

text \<open>
  The subscription \<open>xs[i]\<close> of a list of length \<open>n\<close>: the positions \<open>0\<close> to
  \<open>n - 1\<close> are read directly, the positions \<open>-n\<close> to \<open>-1\<close> are read from the
  back, and every other position raises \<open>IndexError\<close>.
\<close>

definition py_getitem :: "'a list \<Rightarrow> int \<Rightarrow> py_error + 'a" where
  "py_getitem xs i =
     (if 0 \<le> i \<and> i < int (length xs) then Inr (xs ! nat i)
      else if i < 0 \<and> - int (length xs) \<le> i then Inr (xs ! nat (int (length xs) + i))
      else Inl IndexError)"

text \<open>
  \<open>s.split(sep)\<close> for a separator of one character: the segments between the
  separators, left to right; a string without the separator (the empty one too) is a
  single segment. A \<open>string\<close> is a list of bytes; the byte of \<open>'.'\<close> never occurs
  inside the UTF-8 encoding of another code point, so splitting bytes and splitting code
  points agree.
\<close>

fun split_on :: "char \<Rightarrow> string \<Rightarrow> string list" where
  "split_on sep [] = [[]]"
| "split_on sep (c # cs) =
     (if c = sep then [] # split_on sep cs
      else (case split_on sep cs of
              [] \<Rightarrow> [[c]]
            | w # ws \<Rightarrow> (c # w) # ws))"

text \<open>\<open>sep.join(xs)\<close>.\<close>

fun py_join :: "string \<Rightarrow> string list \<Rightarrow> string" where
  "py_join sep [] = []"
| "py_join sep [x] = x"
| "py_join sep (x # y # ys) = x @ sep @ py_join sep (y # ys)"

text \<open>\<open>s.startswith(p)\<close>.\<close>

fun startswith :: "string \<Rightarrow> string \<Rightarrow> bool" where
  "startswith s [] = True"
| "startswith [] (p # ps) = False"
| "startswith (c # cs) (p # ps) = (c = p \<and> startswith cs ps)"

text \<open>
  \<open>range(start, stop, step)\<close> as a list: \<open>ValueError\<close> for a zero step, otherwise
  the values \<open>start, start + step, ...\<close> that lie before \<open>stop\<close>.
\<close>

function range_from :: "int \<Rightarrow> int \<Rightarrow> int \<Rightarrow> int list" where
  "range_from i stop step =
     (if (0 < step \<and> i < stop) \<or> (step < 0 \<and> stop < i)
      then i # range_from (i + step) stop step
      else [])"
  by pat_completeness auto
termination
  by (relation "measure (\<lambda>(i, stop, step). nat (if 0 < step then stop - i else i - stop))")
    auto

definition py_range :: "int \<Rightarrow> int \<Rightarrow> int \<Rightarrow> py_error + int list" where
  "py_range start stop step =
     (if step = 0 then Inl ValueError else Inr (range_from start stop step))"

text \<open>
  Modelled from the spec: \<open>python_utils.UNICODE\<close> is not under src/; it is Python's text
  type, and applied to an int it gives the decimal rendering that the spec concatenates
  to the thread id: a minus sign for a negative number, then the digits, most
  significant first, without leading zeros.
\<close>

definition digit_char :: "nat \<Rightarrow> char" where
  "digit_char d = ''0123456789'' ! d"

function decimal :: "nat \<Rightarrow> string" where
  "decimal n = (if n < 10 then [digit_char n] else decimal (n div 10) @ [digit_char (n mod 10)])"
  by pat_completeness auto
termination
  by (relation "measure (\<lambda>n. n)") auto

definition UNICODE :: "int \<Rightarrow> string" where
  "UNICODE i = (if i < 0 then CHR ''-'' # decimal (nat (- i)) else decimal (nat i))"

text \<open>Reading a digit string back, for stating that \<open>decimal\<close> is a rendering.\<close>

definition digit_value :: "char \<Rightarrow> nat" where
  "digit_value c = of_char c - 48"

definition decimal_value :: "string \<Rightarrow> nat" where
  "decimal_value s = foldl (\<lambda>acc c. 10 * acc + digit_value c) 0 s"

section \<open>core/domain/feedback\_domain.py\<close>

text \<open>
  The collaborators \<open>user_services.get_username\<close> and \<open>utils.get_time_in_millisecs\<close>
  are not under src/: they are parameters \<open>get_username\<close> and
  \<open>get_time_in_millisecs\<close> of the functions that call them, and either may raise.
  A function that calls \<open>get_username\<close> returns, beside its result, the user ids it
  passed to it, in call order. The type \<open>'dt\<close> is \<open>datetime.datetime\<close>.
\<close>

type_synonym username_service = "string \<Rightarrow> py_error + string option"

type_synonym 'dt time_service = "'dt \<Rightarrow> py_error + int"

subsection \<open>FeedbackThread\<close>

record 'dt FeedbackThread =
  ft_id :: string
  ft_entity_type :: string
  ft_entity_id :: string
  ft_state_name :: string
  ft_original_author_id :: "string option"
  ft_status :: string
  ft_subject :: string
  ft_summary :: string
  ft_has_suggestion :: bool
  ft_message_count :: int
  ft_created_on :: 'dt
  ft_last_updated :: 'dt
  ft_last_nonempty_message_text :: "string option"
  ft_last_nonempty_message_author_id :: "string option"

text \<open>
  The expression \<open>user_services.get_username(x) if x else None\<close>: the service is
  called only for a true \<open>x\<close>.
\<close>

definition username_or_none ::
  "username_service \<Rightarrow> string option \<Rightarrow> (py_error + py_value) \<times> string list" where
  "username_or_none get_username author_id =
     (case author_id of
        None \<Rightarrow> (Inr PyNone, [])
      | Some uid \<Rightarrow>
          if uid = [] then (Inr PyNone, [])
          else (case get_username uid of
                  Inl e \<Rightarrow> (Inl e, [uid])
                | Inr name \<Rightarrow> (Inr (opt_str name), [uid])))"

text \<open>
  \<open>FeedbackThread.to_dict\<close>. The values of a dictionary display are evaluated in
  source order, so the time conversion comes first and the two lookups follow.
\<close>

definition FeedbackThread_to_dict ::
  "username_service \<Rightarrow> 'dt time_service \<Rightarrow> 'dt FeedbackThread
     \<Rightarrow> (py_error + py_dict) \<times> string list" where
  "FeedbackThread_to_dict get_username get_time_in_millisecs self =
     (case get_time_in_millisecs (ft_last_updated self) of
        Inl e \<Rightarrow> (Inl e, [])
      | Inr msecs \<Rightarrow>
          (case username_or_none get_username (ft_original_author_id self) of
             (Inl e, l1) \<Rightarrow> (Inl e, l1)
           | (Inr original_author_username, l1) \<Rightarrow>
               (case username_or_none get_username
                       (ft_last_nonempty_message_author_id self) of
                  (Inl e, l2) \<Rightarrow> (Inl e, l1 @ l2)
                | (Inr last_nonempty_message_author, l2) \<Rightarrow>
                    (Inr [(''last_updated_msecs'', PyInt msecs),
                          (''original_author_username'', original_author_username),
                          (''state_name'', PyStr (ft_state_name self)),
                          (''status'', PyStr (ft_status self)),
                          (''subject'', PyStr (ft_subject self)),
                          (''summary'', PyStr (ft_summary self)),
                          (''thread_id'', PyStr (ft_id self)),
                          (''message_count'', PyInt (ft_message_count self)),
                          (''last_nonempty_message_text'',
                             opt_str (ft_last_nonempty_message_text self)),
                          (''last_nonempty_message_author'',
                             last_nonempty_message_author)],
                     l1 @ l2))))"

text \<open>\<open>FeedbackThread._get_full_message_id\<close> (a name cannot start with an underscore).\<close>

definition get_full_message_id :: "'dt FeedbackThread \<Rightarrow> int \<Rightarrow> string" where
  "get_full_message_id self message_id = py_join ''.'' [ft_id self, UNICODE message_id]"

text \<open>
  \<open>FeedbackThread.get_last_two_message_ids\<close>: the comprehension over
  \<open>range(message_count - 1, message_count - 3, -1)\<close>.
\<close>

definition get_last_two_message_ids :: "'dt FeedbackThread \<Rightarrow> py_error + string option list" where
  "get_last_two_message_ids self =
     (case py_range (ft_message_count self - 1) (ft_message_count self - 3) (- 1) of
        Inl e \<Rightarrow> Inl e
      | Inr is \<Rightarrow>
          Inr (map (\<lambda>i. if 0 \<le> i then Some (get_full_message_id self i) else None) is))"

subsection \<open>FeedbackMessage\<close>

record 'dt FeedbackMessage =
  fm_id :: string
  fm_thread_id :: string
  fm_message_id :: string
  fm_author_id :: "string option"
  fm_updated_status :: "string option"
  fm_updated_subject :: "string option"
  fm_text :: string
  fm_created_on :: 'dt
  fm_last_updated :: 'dt
  fm_received_via_email :: bool

text \<open>\<open>FeedbackMessage.__init__\<close>: every argument is stored as it is given.\<close>

definition FeedbackMessage_init ::
  "string \<Rightarrow> string \<Rightarrow> string \<Rightarrow> string option \<Rightarrow> string option \<Rightarrow> string option
     \<Rightarrow> string \<Rightarrow> 'dt \<Rightarrow> 'dt \<Rightarrow> bool \<Rightarrow> 'dt FeedbackMessage" where
  "FeedbackMessage_init full_message_id thread_id message_id author_id updated_status
       updated_subject text_arg created_on last_updated received_via_email =
     \<lparr>fm_id = full_message_id, fm_thread_id = thread_id, fm_message_id = message_id,
      fm_author_id = author_id, fm_updated_status = updated_status,
      fm_updated_subject = updated_subject, fm_text = text_arg,
      fm_created_on = created_on, fm_last_updated = last_updated,
      fm_received_via_email = received_via_email\<rparr>"

text \<open>The properties \<open>entity_id\<close> and \<open>entity_type\<close>.\<close>

definition entity_id :: "'dt FeedbackMessage \<Rightarrow> py_error + string" where
  "entity_id self = py_getitem (split_on CHR ''.'' (fm_id self)) 1"

definition entity_type :: "'dt FeedbackMessage \<Rightarrow> py_error + string" where
  "entity_type self = py_getitem (split_on CHR ''.'' (fm_id self)) 0"

text \<open>
  \<open>FeedbackMessage.to_dict\<close>: the lookup, the time conversion, then the two
  properties, in source order.
\<close>

definition FeedbackMessage_to_dict ::
  "username_service \<Rightarrow> 'dt time_service \<Rightarrow> 'dt FeedbackMessage
     \<Rightarrow> (py_error + py_dict) \<times> string list" where
  "FeedbackMessage_to_dict get_username get_time_in_millisecs self =
     (case username_or_none get_username (fm_author_id self) of
        (Inl e, l) \<Rightarrow> (Inl e, l)
      | (Inr author_username, l) \<Rightarrow>
          (case get_time_in_millisecs (fm_created_on self) of
             Inl e \<Rightarrow> (Inl e, l)
           | Inr msecs \<Rightarrow>
               (case entity_type self of
                  Inl e \<Rightarrow> (Inl e, l)
                | Inr etype \<Rightarrow>
                    (case entity_id self of
                       Inl e \<Rightarrow> (Inl e, l)
                     | Inr eid \<Rightarrow>
                         (Inr [(''author_username'', author_username),
                               (''created_on_msecs'', PyInt msecs),
                               (''entity_type'', PyStr etype),
                               (''entity_id'', PyStr eid),
                               (''message_id'', PyStr (fm_message_id self)),
                               (''text'', PyStr (fm_text self)),
                               (''updated_status'', opt_str (fm_updated_status self)),
                               (''updated_subject'', opt_str (fm_updated_subject self))],
                          l)))))"

subsection \<open>FeedbackThreadSummary\<close>

record 'dt FeedbackThreadSummary =
  fs_status :: string
  fs_original_author_id :: "string option"
  fs_last_updated :: 'dt
  fs_last_message_text :: "string option"
  fs_total_message_count :: int
  fs_last_message_is_read :: bool
  fs_second_last_message_is_read :: bool
  fs_author_last_message :: "string option"
  fs_author_second_last_message :: "string option"
  fs_exploration_title :: string
  fs_exploration_id :: string
  fs_thread_id :: string

text \<open>
  \<open>FeedbackThreadSummary.to_dict\<close>: one time conversion, and no call of
  \<open>get_username\<close> in its body.
\<close>

definition FeedbackThreadSummary_to_dict ::
  "username_service \<Rightarrow> 'dt time_service \<Rightarrow> 'dt FeedbackThreadSummary
     \<Rightarrow> (py_error + py_dict) \<times> string list" where
  "FeedbackThreadSummary_to_dict get_username get_time_in_millisecs self =
     (case get_time_in_millisecs (fs_last_updated self) of
        Inl e \<Rightarrow> (Inl e, [])
      | Inr msecs \<Rightarrow>
          (Inr [(''status'', PyStr (fs_status self)),
                (''original_author_id'', opt_str (fs_original_author_id self)),
                (''last_updated_msecs'', PyInt msecs),
                (''last_message_text'', opt_str (fs_last_message_text self)),
                (''total_message_count'', PyInt (fs_total_message_count self)),
                (''last_message_is_read'', PyBool (fs_last_message_is_read self)),
                (''second_last_message_is_read'',
                   PyBool (fs_second_last_message_is_read self)),
                (''author_last_message'', opt_str (fs_author_last_message self)),
                (''author_second_last_message'',
                   opt_str (fs_author_second_last_message self)),
                (''exploration_title'', PyStr (fs_exploration_title self)),
                (''exploration_id'', PyStr (fs_exploration_id self)),
                (''thread_id'', PyStr (fs_thread_id self))],
           []))"

section \<open>core/jobs/transforms/validation/story\_validation.py\<close>

text \<open>
  A stored model, as far as the validators read it: its id, and its other properties.
  The result of \<open>_get_change_domain_class\<close> is a change domain class or \<open>None\<close>;
  \<open>story_domain.StoryChange\<close> is the only class the file returns.
\<close>

datatype change_domain_class = StoryChange

record datastore_model =
  model_id :: string
  model_properties :: py_dict

text \<open>
  Modelled from the spec: \<open>job_utils.clone_model\<close> is not under src/; the spec calls
  its result "a cloned input record": a new record with the id and the properties of the
  given one.
\<close>

definition clone_model :: "datastore_model \<Rightarrow> datastore_model" where
  "clone_model model =
     \<lparr>model_id = model_id model, model_properties = model_properties model\<rparr>"

text \<open>\<open>ValidateStorySnapshotMetadataModel._get_change_domain_class\<close>.\<close>

definition ValidateStorySnapshotMetadataModel_get_change_domain_class ::
  "datastore_model \<Rightarrow> change_domain_class option" where
  "ValidateStorySnapshotMetadataModel_get_change_domain_class unused_input_model =
     Some StoryChange"

text \<open>\<open>ValidateStoryCommitLogEntryModel._get_change_domain_class\<close>.\<close>

definition ValidateStoryCommitLogEntryModel_get_change_domain_class ::
  "datastore_model \<Rightarrow> change_domain_class option" where
  "ValidateStoryCommitLogEntryModel_get_change_domain_class input_model =
     (let model = clone_model input_model
      in if startswith (model_id model) ''story'' then Some StoryChange else None)"

section \<open>core/controllers/improvements.py\<close>

text \<open>
  The functions below are the bodies of the handler methods. The decorator
  \<open>acl_decorators.can_edit_exploration\<close> and the schema validation of the request
  belong to the framework and run before a body does; a body is given the path argument
  and the normalized request.
\<close>

text \<open>\<open>d[k]\<close> and \<open>d.get(k, default)\<close> on a dictionary.\<close>

definition dict_getitem :: "py_dict \<Rightarrow> string \<Rightarrow> py_error + py_value" where
  "dict_getitem d k = (case map_of d k of None \<Rightarrow> Inl KeyError | Some v \<Rightarrow> Inr v)"

definition dict_get :: "py_dict \<Rightarrow> string \<Rightarrow> py_value \<Rightarrow> py_value" where
  "dict_get d k default_value = (case map_of d k of None \<Rightarrow> default_value | Some v \<Rightarrow> v)"

text \<open>
  Modelled from the spec: \<open>improvements_domain.TaskEntry\<close> is not under src/; its
  attributes are those of the spec's data model, and the constructor stores its ten
  positional arguments in that order.
\<close>

record 'dt TaskEntry =
  te_entity_type :: string
  te_entity_id :: string
  te_entity_version :: py_value
  te_task_type :: py_value
  te_target_type :: string
  te_target_id :: py_value
  te_issue_description :: py_value
  te_status :: py_value
  te_resolver_id :: "string option"
  te_resolved_on :: 'dt

definition TaskEntry_init ::
  "string \<Rightarrow> string \<Rightarrow> py_value \<Rightarrow> py_value \<Rightarrow> string \<Rightarrow> py_value \<Rightarrow> py_value
     \<Rightarrow> py_value \<Rightarrow> string option \<Rightarrow> 'dt \<Rightarrow> 'dt TaskEntry" where
  "TaskEntry_init entity_type_arg entity_id_arg entity_version task_type target_type
       target_id issue_description status resolver_id resolved_on =
     \<lparr>te_entity_type = entity_type_arg, te_entity_id = entity_id_arg,
      te_entity_version = entity_version, te_task_type = task_type,
      te_target_type = target_type, te_target_id = target_id,
      te_issue_description = issue_description, te_status = status,
      te_resolver_id = resolver_id, te_resolved_on = resolved_on\<rparr>"

text \<open>
  Modelled from the spec: \<open>constants\<close> is not under src/; the two constants name the
  entity type "exploration" and the target type "state".
\<close>

definition TASK_ENTITY_TYPE_EXPLORATION :: string where
  "TASK_ENTITY_TYPE_EXPLORATION = ''exploration''"

definition TASK_TARGET_TYPE_STATE :: string where
  "TASK_TARGET_TYPE_STATE = ''state''"

subsection \<open>ExplorationImprovementsHandler.post\<close>

text \<open>
  What the body reads of the handler object: the user id and the list under
  \<open>task_entries\<close> of the normalized payload, a list of dictionaries by the declared
  schema.
\<close>

record post_request =
  req_user_id :: "string option"
  req_task_entries :: "py_dict list"

text \<open>
  What the body changes: the batches handed to \<open>improvements_services.put_tasks\<close>
  and the values handed to \<open>render_json\<close>, both in call order.
\<close>

record 'dt handler_world =
  put_tasks_calls :: "'dt TaskEntry list list"
  rendered :: "py_dict list"

text \<open>
  The \<open>for\<close> loop. \<open>utcnow k\<close> is what the \<open>k\<close>-th reading of the clock by
  this request returns; the loop reads the clock once for each item.
\<close>

fun post_loop ::
  "(nat \<Rightarrow> 'dt) \<Rightarrow> string \<Rightarrow> string option \<Rightarrow> py_dict list \<Rightarrow> 'dt TaskEntry list \<Rightarrow> nat
     \<Rightarrow> py_error + 'dt TaskEntry list" where
  "post_loop utcnow exploration_id user_id [] task_entries_to_put k =
     Inr task_entries_to_put"
| "post_loop utcnow exploration_id user_id (task_entry # rest) task_entries_to_put k =
     (case dict_getitem task_entry ''entity_version'' of
        Inl e \<Rightarrow> Inl e
      | Inr entity_version \<Rightarrow>
     (case dict_getitem task_entry ''task_type'' of
        Inl e \<Rightarrow> Inl e
      | Inr task_type \<Rightarrow>
     (case dict_getitem task_entry ''target_id'' of
        Inl e \<Rightarrow> Inl e
      | Inr target_id \<Rightarrow>
     (case dict_getitem task_entry ''status'' of
        Inl e \<Rightarrow> Inl e
      | Inr status \<Rightarrow>
          (let issue_description = dict_get task_entry ''issue_description'' PyNone
           in post_loop utcnow exploration_id user_id rest
                (task_entries_to_put @
                   [TaskEntry_init TASK_ENTITY_TYPE_EXPLORATION exploration_id
                      entity_version task_type TASK_TARGET_TYPE_STATE target_id
                      issue_description status user_id (utcnow k)])
                (Suc k))))))"

text \<open>
  The body of \<open>post\<close>: an exception of the loop leaves the method before
  \<open>put_tasks\<close> and \<open>render_json\<close> are reached.
\<close>

definition ExplorationImprovementsHandler_post ::
  "(nat \<Rightarrow> 'dt) \<Rightarrow> post_request \<Rightarrow> string \<Rightarrow> 'dt handler_world
     \<Rightarrow> py_error + 'dt handler_world" where
  "ExplorationImprovementsHandler_post utcnow self exploration_id world =
     (case post_loop utcnow exploration_id (req_user_id self) (req_task_entries self) [] 0 of
        Inl e \<Rightarrow> Inl e
      | Inr task_entries_to_put \<Rightarrow>
          Inr (world\<lparr>put_tasks_calls := put_tasks_calls world @ [task_entries_to_put],
                     rendered := rendered world @ [[]]\<rparr>))"

text \<open>
  The relation between one item of the payload and the task entry built for it: the
  entity type is "exploration" and the entity id the path argument, the target type is
  "state", the entity version, task type, target id and status are the values of the
  item, the issue description is the value of the item or \<open>None\<close> when the item has
  none, and the resolver and the time are the user of the request and the reading of
  the clock.
\<close>

definition entry_built_from ::
  "string \<Rightarrow> string option \<Rightarrow> 'dt \<Rightarrow> py_dict \<Rightarrow> 'dt TaskEntry \<Rightarrow> bool" where
  "entry_built_from exploration_id user_id now task_entry e =
     (te_entity_type e = ''exploration''
      \<and> te_entity_id e = exploration_id
      \<and> map_of task_entry ''entity_version'' = Some (te_entity_version e)
      \<and> map_of task_entry ''task_type'' = Some (te_task_type e)
      \<and> te_target_type e = ''state''
      \<and> map_of task_entry ''target_id'' = Some (te_target_id e)
      \<and> te_issue_description e =
          (case map_of task_entry ''issue_description'' of None \<Rightarrow> PyNone | Some v \<Rightarrow> v)
      \<and> map_of task_entry ''status'' = Some (te_status e)
      \<and> te_resolver_id e = user_id
      \<and> te_resolved_on e = now)"

subsection \<open>ExplorationImprovementsConfigHandler.get\<close>

text \<open>
  \<open>exp_fetchers.get_exploration_by_id\<close> is not under src/: it is a parameter, and it
  may raise. Of the exploration it returns, the body reads the version.
\<close>

record exploration =
  exp_id :: string
  exp_version :: int

type_synonym exploration_fetcher = "string \<Rightarrow> py_error + exploration"

text \<open>
  \<open>config_domain\<close> is not under src/: the process-wide registry is a parameter, the
  record of the \<open>.value\<close> of the four config properties that the body reads.
\<close>

record config_registry =
  IS_IMPROVEMENTS_TAB_ENABLED :: py_value
  HIGH_BOUNCE_RATE_TASK_STATE_BOUNCE_RATE_CREATION_THRESHOLD :: py_value
  HIGH_BOUNCE_RATE_TASK_STATE_BOUNCE_RATE_OBSOLETION_THRESHOLD :: py_value
  HIGH_BOUNCE_RATE_TASK_MINIMUM_EXPLORATION_STARTS :: py_value

text \<open>
  The body of \<open>get\<close>: the result is the dictionary handed to \<open>render_json\<close>, or the
  exception of the fetch, raised before anything is rendered.
\<close>

definition ExplorationImprovementsConfigHandler_get ::
  "exploration_fetcher \<Rightarrow> config_registry \<Rightarrow> string \<Rightarrow> py_error + py_dict" where
  "ExplorationImprovementsConfigHandler_get get_exploration_by_id config_domain
       exploration_id =
     (case get_exploration_by_id exploration_id of
        Inl e \<Rightarrow> Inl e
      | Inr exp \<Rightarrow>
          Inr [(''exploration_id'', PyStr exploration_id),
               (''exploration_version'', PyInt (exp_version exp)),
               (''is_improvements_tab_enabled'', IS_IMPROVEMENTS_TAB_ENABLED config_domain),
               (''high_bounce_rate_task_state_bounce_rate_creation_threshold'',
                  HIGH_BOUNCE_RATE_TASK_STATE_BOUNCE_RATE_CREATION_THRESHOLD config_domain),
               (''high_bounce_rate_task_state_bounce_rate_obsoletion_threshold'',
                  HIGH_BOUNCE_RATE_TASK_STATE_BOUNCE_RATE_OBSOLETION_THRESHOLD config_domain),
               (''high_bounce_rate_task_minimum_exploration_starts'',
                  HIGH_BOUNCE_RATE_TASK_MINIMUM_EXPLORATION_STARTS config_domain)])"

section \<open>Example values\<close>

text \<open>Concrete objects at which the theorems below are instantiated.\<close>

definition example_thread :: "int \<Rightarrow> int FeedbackThread" where
  "example_thread n =
     \<lparr>ft_id = ''exploration.abc123.t1'', ft_entity_type = ''exploration'',
      ft_entity_id = ''abc123'', ft_state_name = ''Intro'',
      ft_original_author_id = None, ft_status = ''open'', ft_subject = ''Typo'',
      ft_summary = ''A typo'', ft_has_suggestion = False, ft_message_count = n,
      ft_created_on = 1000, ft_last_updated = 2000,
      ft_last_nonempty_message_text = Some ''Fixed'',
      ft_last_nonempty_message_author_id = Some ''uid_2''\<rparr>"

definition example_message :: "string \<Rightarrow> string option \<Rightarrow> int FeedbackMessage" where
  "example_message full_message_id author_id =
     FeedbackMessage_init full_message_id ''exploration.abc123'' ''4'' author_id None None
       ''Hello'' 1000 2000 False"

definition example_summary :: "int FeedbackThreadSummary" where
  "example_summary =
     \<lparr>fs_status = ''open'', fs_original_author_id = Some ''uid_1'', fs_last_updated = 2000,
      fs_last_message_text = Some ''Fixed'', fs_total_message_count = 2,
      fs_last_message_is_read = True, fs_second_last_message_is_read = False,
      fs_author_last_message = Some ''bob'', fs_author_second_last_message = Some ''carol'',
      fs_exploration_title = ''Fractions'', fs_exploration_id = ''abc123'',
      fs_thread_id = ''exploration.abc123.t1''\<rparr>"

text \<open>
  A user directory with two users, a user service that raises on every call, and a
  clock conversion from seconds to milliseconds.
\<close>

definition example_names :: "string \<Rightarrow> string option" where
  "example_names uid =
     (if uid = ''uid_1'' then Some ''alice''
      else if uid = ''uid_2'' then Some ''bob''
      else None)"

definition failing_get_username :: username_service where
  "failing_get_username uid = Inl (ExternalError ''User not found'')"

definition example_msecs :: "int \<Rightarrow> int" where
  "example_msecs seconds = 1000 * seconds"

text \<open>A payload of two items, an exploration fetcher and a configuration registry.\<close>

definition example_task_entries :: "py_dict list" where
  "example_task_entries =
     [[(''entity_version'', PyInt 3), (''task_type'', PyStr ''high_bounce_rate''),
       (''target_id'', PyStr ''Intro''), (''status'', PyStr ''open'')],
      [(''entity_version'', PyInt 3), (''task_type'', PyStr ''high_bounce_rate''),
       (''target_id'', PyStr ''End''),
       (''issue_description'', PyStr ''28% of learners dropped out''),
       (''status'', PyStr ''resolved'')]]"

definition example_get_exploration_by_id :: exploration_fetcher where
  "example_get_exploration_by_id exploration_id =
     (if exploration_id = ''abc123'' then Inr \<lparr>exp_id = ''abc123'', exp_version = 7\<rparr>
      else Inl (ExternalError ''Entity not found''))"

definition example_config :: config_registry where
  "example_config =
     \<lparr>IS_IMPROVEMENTS_TAB_ENABLED = PyBool False,
      HIGH_BOUNCE_RATE_TASK_STATE_BOUNCE_RATE_CREATION_THRESHOLD = PyInt 25,
      HIGH_BOUNCE_RATE_TASK_STATE_BOUNCE_RATE_OBSOLETION_THRESHOLD = PyInt 20,
      HIGH_BOUNCE_RATE_TASK_MINIMUM_EXPLORATION_STARTS = PyInt 100\<rparr>"

section \<open>Properties of the built-ins\<close>

lemma split_on_not_Nil: "split_on sep s \<noteq> []"
  by (induction s) (auto split: list.splits)

lemma split_on_no_sep: "sep \<notin> set s \<Longrightarrow> split_on sep s = [s]"
  by (induction s) auto

lemma split_on_append:
  "sep \<notin> set a \<Longrightarrow> split_on sep (a @ sep # rest) = a # split_on sep rest"
  by (induction a) auto

lemma hd_split_on: "hd (split_on sep s) = takeWhile (\<lambda>c. c \<noteq> sep) s"
  using split_on_not_Nil[of sep]
  by (induction s) (auto split: list.splits)

lemma length_split_on: "length (split_on sep s) = Suc (count_list s sep)"
  by (induction s) (auto split: list.splits)

lemma py_join_Cons:
  "xs \<noteq> [] \<Longrightarrow> py_join sep (x # xs) = x @ sep @ py_join sep xs"
  by (cases xs) auto

text \<open>Joining the segments with the separator gives the string back.\<close>

lemma join_split_on: "py_join [sep] (split_on sep s) = s"
proof (induction s)
  case Nil
  then show ?case by simp
next
  case (Cons c cs)
  show ?case
  proof (cases "split_on sep cs")
    case Nil
    then show ?thesis using split_on_not_Nil[of sep cs] by simp
  next
    case (Cons w ws)
    with Cons.IH show ?thesis
      by (cases ws) (auto simp: py_join_Cons split_on_not_Nil)
  qed
qed

lemma startswith_prefix: "startswith s p = prefix p s"
  by (induction s p rule: startswith.induct) auto

lemma range_from_down2: "range_from (n - 1) (n - 3) (- 1) = [n - 1, n - 2]"
  by (simp add: range_from.simps[of "n - 1"] range_from.simps[of "n - 2"]
      range_from.simps[of "n - 3"])

text \<open>The rendering of a natural number consists of digits and reads back as the number.\<close>

lemma digit_value_digit_char: "d < 10 \<Longrightarrow> digit_value (digit_char d) = d"
proof -
  assume "d < 10"
  then have "d \<in> {0, 1, 2, 3, 4, 5, 6, 7, 8, 9}" by auto
  then show ?thesis
    by (auto simp: digit_value_def digit_char_def)
qed

lemma decimal_value_snoc: "decimal_value (s @ [c]) = 10 * decimal_value s + digit_value c"
  by (simp add: decimal_value_def)

lemma decimal_value_decimal: "decimal_value (decimal n) = n"
proof (induction n rule: decimal.induct)
  case (1 n)
  show ?case
  proof (cases "n < 10")
    case True
    then show ?thesis
      by (simp add: decimal.simps[of n] decimal_value_def digit_value_digit_char)
  next
    case False
    with 1 show ?thesis
      by (simp add: decimal.simps[of n] decimal_value_snoc digit_value_digit_char)
  qed
qed

lemma decimal_digits: "set (decimal n) \<subseteq> set ''0123456789''"
proof (induction n rule: decimal.induct)
  case (1 n)
  have d: "\<And>d. d < 10 \<Longrightarrow> digit_char d \<in> set ''0123456789''"
    unfolding digit_char_def by (rule nth_mem) simp
  show ?case
  proof (cases "n < 10")
    case True
    then show ?thesis using d[of n] by (simp add: decimal.simps[of n])
  next
    case False
    with 1 show ?thesis using d[of "n mod 10"] by (simp add: decimal.simps[of n])
  qed
qed

lemma UNICODE_nonneg: "0 \<le> i \<Longrightarrow> decimal_value (UNICODE i) = nat i"
proof -
  assume "0 \<le> i"
  then have "UNICODE i = decimal (nat i)"
    unfolding UNICODE_def by simp
  then show ?thesis
    by (simp only: decimal_value_decimal)
qed

lemma UNICODE_0: "UNICODE 0 = ''0''"
  by (simp add: UNICODE_def decimal.simps[of 0] digit_char_def)

section \<open>FeedbackThread.get\_last\_two\_message\_ids\<close>

text \<open>
  C1. For a thread with \<open>message_count = n\<close>, whatever the integer \<open>n\<close>,
  \<open>get_last_two_message_ids\<close> returns the list of two slots for the indices \<open>n - 1\<close>
  and \<open>n - 2\<close>, in this order: a slot is \<open>None\<close> when its index is below zero, and
  otherwise the thread id, a \<open>'.'\<close> and the decimal rendering of the index. With
  \<open>n = 1\<close> the result is the id of message 0 followed by \<open>None\<close>, with \<open>n = 0\<close> it is
  \<open>[None, None]\<close>.
\<close>

theorem get_last_two_message_ids_spec:
  "get_last_two_message_ids t =
     Inr [if ft_message_count t - 1 < 0 then None
          else Some (ft_id t @ ''.'' @ UNICODE (ft_message_count t - 1)),
          if ft_message_count t - 2 < 0 then None
          else Some (ft_id t @ ''.'' @ UNICODE (ft_message_count t - 2))]
   \<and> (ft_message_count t = 1 \<longrightarrow>
        get_last_two_message_ids t = Inr [Some (ft_id t @ ''.0''), None])
   \<and> (ft_message_count t = 0 \<longrightarrow> get_last_two_message_ids t = Inr [None, None])"
proof -
  have r: "py_range (ft_message_count t - 1) (ft_message_count t - 3) (- 1)
             = Inr [ft_message_count t - 1, ft_message_count t - 2]"
    by (simp add: py_range_def range_from_down2)
  have g: "get_last_two_message_ids t =
     Inr [if ft_message_count t - 1 < 0 then None
          else Some (ft_id t @ ''.'' @ UNICODE (ft_message_count t - 1)),
          if ft_message_count t - 2 < 0 then None
          else Some (ft_id t @ ''.'' @ UNICODE (ft_message_count t - 2))]"
    unfolding get_last_two_message_ids_def r
    by (simp add: get_full_message_id_def)
  show ?thesis
    using g by (simp add: UNICODE_0)
qed

theorem get_last_two_message_ids_spec_witness:
  "get_last_two_message_ids (example_thread 1) = Inr [Some ''exploration.abc123.t1.0'', None]
   \<and> get_last_two_message_ids (example_thread 0) = Inr [None, None]"
  using get_last_two_message_ids_spec [of "example_thread 1", THEN conjunct2]
    get_last_two_message_ids_spec [of "example_thread 0", THEN conjunct2]
  by (simp add: example_thread_def)

section \<open>FeedbackMessage.entity\_type and FeedbackMessage.entity\_id\<close>

text \<open>
  C4. When the id of a message is a composite \<open>a.b.c\<close> whose first two segments
  \<open>a\<close> and \<open>b\<close> hold no \<open>'.'\<close>, \<open>entity_type\<close> is \<open>a\<close>, the segment before the first
  \<open>'.'\<close>, and \<open>entity_id\<close> is \<open>b\<close>, the segment between the first and the second
  \<open>'.'\<close>. The id \<open>exploration.abc123.4\<close> gives \<open>exploration\<close> and \<open>abc123\<close>.
\<close>

theorem entity_fields_of_composite_id:
  assumes "CHR ''.'' \<notin> set a" and "CHR ''.'' \<notin> set b"
    and "fm_id m = a @ ''.'' @ b @ ''.'' @ c"
  shows "entity_type m = Inr a \<and> entity_id m = Inr b"
proof -
  have "split_on CHR ''.'' (fm_id m) = a # b # split_on CHR ''.'' c"
    using assms by (simp add: split_on_append)
  then show ?thesis
    by (simp add: entity_type_def entity_id_def py_getitem_def)
qed

theorem entity_fields_of_composite_id_witness:
  "entity_type (example_message ''exploration.abc123.4'' (Some ''uid_1'')) = Inr ''exploration''
   \<and> entity_id (example_message ''exploration.abc123.4'' (Some ''uid_1'')) = Inr ''abc123''"
  using entity_fields_of_composite_id
      [of "''exploration''" "''abc123''"
          "example_message ''exploration.abc123.4'' (Some ''uid_1'')" "''4''"]
  by (simp add: example_message_def FeedbackMessage_init_def)

text \<open>
  C5, as amended. The constructor stores any string as the id, without a check. For an
  id that holds no \<open>'.'\<close>, reading \<open>entity_id\<close> raises \<open>IndexError\<close> (index 1 of a
  split result of one segment), and no typed error value is returned; reading
  \<open>entity_type\<close> does not raise: it returns the whole id.
\<close>

theorem no_dot_id_raises_only_in_entity_id:
  assumes "CHR ''.'' \<notin> set i"
  shows "fm_id (FeedbackMessage_init i tid mid a us ub tx c l r) = i
   \<and> entity_id (FeedbackMessage_init i tid mid a us ub tx c l r) = Inl IndexError
   \<and> entity_type (FeedbackMessage_init i tid mid a us ub tx c l r) = Inr i"
  using assms
  by (simp add: FeedbackMessage_init_def entity_id_def entity_type_def py_getitem_def
      split_on_no_sep)

theorem no_dot_id_raises_only_in_entity_id_witness:
  "fm_id (FeedbackMessage_init ''exploration'' ''t'' ''0'' None None None ''Hello''
       (0::int) 0 False) = ''exploration''
   \<and> entity_id (FeedbackMessage_init ''exploration'' ''t'' ''0'' None None None ''Hello''
       (0::int) 0 False) = Inl IndexError
   \<and> entity_type (FeedbackMessage_init ''exploration'' ''t'' ''0'' None None None ''Hello''
       (0::int) 0 False) = Inr ''exploration''"
  using no_dot_id_raises_only_in_entity_id
      [of "''exploration''" "''t''" "''0''" None None None "''Hello''" "0::int" 0 False]
  by simp

text \<open>
  C5, as stated, says that reading the derived fields of a message with a malformed id
  raises. The id \<open>exploration\<close> holds no \<open>'.'\<close>, and reading \<open>entity_type\<close> returns it.
\<close>

theorem malformed_id_fields_raise_counterexample:
  "CHR ''.'' \<notin> set (fm_id (example_message ''exploration'' None))
   \<and> entity_type (example_message ''exploration'' None) = Inr ''exploration''
   \<and> entity_type (example_message ''exploration'' None) \<noteq> Inl IndexError"
  by (simp add: example_message_def FeedbackMessage_init_def entity_type_def py_getitem_def)

text \<open>
  C10. \<open>entity_type\<close> is total: for every id, the empty one and those without a
  \<open>'.'\<close> included, the split result has a first segment, and \<open>entity_type\<close> returns
  it (the id up to its first \<open>'.'\<close>). Of the two properties only \<open>entity_id\<close> can
  raise, and it does exactly when the id holds no \<open>'.'\<close>.
\<close>

theorem entity_type_total:
  "split_on CHR ''.'' (fm_id m) \<noteq> []
   \<and> entity_type m = Inr (takeWhile (\<lambda>c. c \<noteq> CHR ''.'') (fm_id m))
   \<and> (entity_id m = Inl IndexError) = (CHR ''.'' \<notin> set (fm_id m))
   \<and> (\<exists>s. entity_id m = Inr s) = (CHR ''.'' \<in> set (fm_id m))"
proof -
  let ?xs = "split_on CHR ''.'' (fm_id m)"
  have ne: "?xs \<noteq> []" by (rule split_on_not_Nil)
  have t: "entity_type m = Inr (hd ?xs)"
    using ne by (cases ?xs) (simp_all add: entity_type_def py_getitem_def)
  have len: "length ?xs = Suc (count_list (fm_id m) CHR ''.'')"
    by (rule length_split_on)
  have i: "(entity_id m = Inl IndexError) = (CHR ''.'' \<notin> set (fm_id m))"
    using len List.count_list_0_iff[of "fm_id m" "CHR ''.''"]
    by (auto simp: entity_id_def py_getitem_def)
  have j: "(\<exists>s. entity_id m = Inr s) = (CHR ''.'' \<in> set (fm_id m))"
    using len List.count_list_0_iff[of "fm_id m" "CHR ''.''"]
    by (auto simp: entity_id_def py_getitem_def)
  show ?thesis using ne t i j by (simp add: hd_split_on)
qed

section \<open>The story validators\<close>

text \<open>
  C2. For every input record, \<open>ValidateStoryCommitLogEntryModel._get_change_domain_class\<close>
  returns the class \<open>StoryChange\<close> when the id of the record starts with \<open>story\<close>, and
  \<open>None\<close>, the skip signal, for every other id; the empty id is one of these.
\<close>

theorem story_commit_log_entry_class:
  "ValidateStoryCommitLogEntryModel_get_change_domain_class m =
     (if prefix ''story'' (model_id m) then Some StoryChange else None)
   \<and> (model_id m = [] \<longrightarrow> ValidateStoryCommitLogEntryModel_get_change_domain_class m = None)"
  by (simp add: ValidateStoryCommitLogEntryModel_get_change_domain_class_def clone_model_def
      startswith_prefix)

theorem story_commit_log_entry_class_witness:
  "ValidateStoryCommitLogEntryModel_get_change_domain_class
     \<lparr>model_id = [], model_properties = []\<rparr> = None
   \<and> ValidateStoryCommitLogEntryModel_get_change_domain_class
     \<lparr>model_id = ''story-abc-1'', model_properties = []\<rparr> = Some StoryChange
   \<and> ValidateStoryCommitLogEntryModel_get_change_domain_class
     \<lparr>model_id = ''rights-abc-1'', model_properties = []\<rparr> = None"
  using story_commit_log_entry_class [of "\<lparr>model_id = [], model_properties = []\<rparr>"]
    story_commit_log_entry_class [of "\<lparr>model_id = ''story-abc-1'', model_properties = []\<rparr>"]
    story_commit_log_entry_class [of "\<lparr>model_id = ''rights-abc-1'', model_properties = []\<rparr>"]
  by simp

text \<open>
  C9. \<open>ValidateStorySnapshotMetadataModel._get_change_domain_class\<close> returns the class
  \<open>StoryChange\<close> for every input model and does not read the model: two models give
  the same result. It never returns \<open>None\<close>, unlike the validator of the commit log
  entries, which returns \<open>None\<close> for a model with the id \<open>topic-1\<close>.
\<close>

theorem story_snapshot_metadata_class:
  "ValidateStorySnapshotMetadataModel_get_change_domain_class m = Some StoryChange
   \<and> ValidateStorySnapshotMetadataModel_get_change_domain_class m \<noteq> None
   \<and> ValidateStorySnapshotMetadataModel_get_change_domain_class m
       = ValidateStorySnapshotMetadataModel_get_change_domain_class m'
   \<and> ValidateStorySnapshotMetadataModel_get_change_domain_class (m\<lparr>model_id := ''topic-1''\<rparr>)
       = Some StoryChange
   \<and> ValidateStoryCommitLogEntryModel_get_change_domain_class (m\<lparr>model_id := ''topic-1''\<rparr>)
       = None"
  by (simp add: ValidateStorySnapshotMetadataModel_get_change_domain_class_def
      ValidateStoryCommitLogEntryModel_get_change_domain_class_def clone_model_def)

section \<open>The to\_dict projections\<close>

lemma username_or_none_falsy:
  "\<not> truthy author_id \<Longrightarrow> username_or_none gu author_id = (Inr PyNone, [])"
  by (auto simp: truthy_def username_or_none_def split: option.splits)

lemma username_or_none_log:
  "set (snd (username_or_none gu author_id)) \<subseteq> set_option author_id
   \<and> length (snd (username_or_none gu author_id)) \<le> 1"
  by (auto simp: username_or_none_def split: option.splits sum.splits)

lemma thread_to_dict_original_null:
  assumes "\<not> truthy (ft_original_author_id t)"
  shows "set (snd (FeedbackThread_to_dict gu gt t))
           \<subseteq> set_option (ft_last_nonempty_message_author_id t)
         \<and> length (snd (FeedbackThread_to_dict gu gt t)) \<le> 1
         \<and> (\<forall>d. fst (FeedbackThread_to_dict gu gt t) = Inr d \<longrightarrow>
               map_of d ''original_author_username'' = Some PyNone)"
proof (cases "gt (ft_last_updated t)")
  case (Inl e)
  then show ?thesis by (simp add: FeedbackThread_to_dict_def)
next
  case (Inr msecs)
  obtain r l where u: "username_or_none gu (ft_last_nonempty_message_author_id t) = (r, l)"
    by (cases "username_or_none gu (ft_last_nonempty_message_author_id t)")
  from username_or_none_log[of gu "ft_last_nonempty_message_author_id t"] u
  have l: "set l \<subseteq> set_option (ft_last_nonempty_message_author_id t)" "length l \<le> 1"
    by simp_all
  show ?thesis
    using Inr u l username_or_none_falsy[OF assms, of gu]
    by (cases r) (simp_all add: FeedbackThread_to_dict_def)
qed

lemma thread_to_dict_last_null:
  assumes "\<not> truthy (ft_last_nonempty_message_author_id t)"
  shows "set (snd (FeedbackThread_to_dict gu gt t)) \<subseteq> set_option (ft_original_author_id t)
         \<and> length (snd (FeedbackThread_to_dict gu gt t)) \<le> 1
         \<and> (\<forall>d. fst (FeedbackThread_to_dict gu gt t) = Inr d \<longrightarrow>
               map_of d ''last_nonempty_message_author'' = Some PyNone)"
proof (cases "gt (ft_last_updated t)")
  case (Inl e)
  then show ?thesis by (simp add: FeedbackThread_to_dict_def)
next
  case (Inr msecs)
  obtain r l where u: "username_or_none gu (ft_original_author_id t) = (r, l)"
    by (cases "username_or_none gu (ft_original_author_id t)")
  from username_or_none_log[of gu "ft_original_author_id t"] u
  have l: "set l \<subseteq> set_option (ft_original_author_id t)" "length l \<le> 1"
    by simp_all
  show ?thesis
    using Inr u l username_or_none_falsy[OF assms, of gu]
    by (cases r) (simp_all add: FeedbackThread_to_dict_def)
qed

lemma message_to_dict_author_null:
  assumes "\<not> truthy (fm_author_id m)"
  shows "snd (FeedbackMessage_to_dict gu gt m) = []
         \<and> (\<forall>d. fst (FeedbackMessage_to_dict gu gt m) = Inr d \<longrightarrow>
               map_of d ''author_username'' = Some PyNone)"
  using username_or_none_falsy[OF assms, of gu]
  by (auto simp: FeedbackMessage_to_dict_def split: sum.splits)

lemma entity_fields_with_dot:
  assumes "CHR ''.'' \<in> set (fm_id m)"
  shows "\<exists>a b. entity_type m = Inr a \<and> entity_id m = Inr b"
proof -
  have ty: "entity_type m = Inr (hd (split_on CHR ''.'' (fm_id m)))"
    using split_on_not_Nil[of "CHR ''.''" "fm_id m"]
    by (cases "split_on CHR ''.'' (fm_id m)") (simp_all add: entity_type_def py_getitem_def)
  have "count_list (fm_id m) CHR ''.'' \<noteq> 0"
    using assms by (simp add: List.count_list_0_iff)
  then have "1 < length (split_on CHR ''.'' (fm_id m))"
    by (simp add: length_split_on)
  then have "entity_id m = Inr (split_on CHR ''.'' (fm_id m) ! 1)"
    by (simp add: entity_id_def py_getitem_def)
  with ty show ?thesis by blast
qed

lemma username_or_none_total:
  "username_or_none (\<lambda>uid. Inr (names uid)) author_id =
     (Inr (case author_id of None \<Rightarrow> PyNone
           | Some uid \<Rightarrow> if uid = [] then PyNone else opt_str (names uid)),
      case author_id of None \<Rightarrow> [] | Some uid \<Rightarrow> if uid = [] then [] else [uid])"
  by (simp add: username_or_none_def split: option.splits)

text \<open>
  C3, as stated, says that \<open>to_dict\<close> replaces the author id by the resolved username
  in \<open>FeedbackThreadSummary\<close> too. The summary below has the author \<open>uid_1\<close>, whom the
  user service resolves to \<open>alice\<close>: the dictionary holds the id \<open>uid_1\<close> under
  \<open>original_author_id\<close>, the name \<open>alice\<close> does not occur in it, and the user service
  is not called.
\<close>

theorem summary_author_id_counterexample:
  "fs_original_author_id example_summary = Some ''uid_1''
   \<and> example_names ''uid_1'' = Some ''alice''
   \<and> FeedbackThreadSummary_to_dict (\<lambda>uid. Inr (example_names uid))
        (\<lambda>x. Inr (example_msecs x)) example_summary =
      (Inr [(''status'', PyStr ''open''),
            (''original_author_id'', PyStr ''uid_1''),
            (''last_updated_msecs'', PyInt 2000000),
            (''last_message_text'', PyStr ''Fixed''),
            (''total_message_count'', PyInt 2),
            (''last_message_is_read'', PyBool True),
            (''second_last_message_is_read'', PyBool False),
            (''author_last_message'', PyStr ''bob''),
            (''author_second_last_message'', PyStr ''carol''),
            (''exploration_title'', PyStr ''Fractions''),
            (''exploration_id'', PyStr ''abc123''),
            (''thread_id'', PyStr ''exploration.abc123.t1'')], [])"
  by (simp add: example_summary_def example_names_def example_msecs_def
      FeedbackThreadSummary_to_dict_def opt_str_def)

text \<open>
  C3, as amended. When the user service and the time conversion return:
  \<open>FeedbackThread.to_dict\<close> and \<open>FeedbackMessage.to_dict\<close> (the latter for an id with a
  \<open>'.'\<close>) give a dictionary with the listed keys, none of which is an author id or a
  datetime field; each username key holds the name that the user service resolves for
  the author id, or null when the id is \<open>None\<close> or empty; \<open>last_updated_msecs\<close> and
  \<open>created_on_msecs\<close> hold the millisecond value of \<open>last_updated\<close> and of
  \<open>created_on\<close>. \<open>FeedbackThreadSummary.to_dict\<close> gives \<open>last_updated_msecs\<close> in the
  same way, keeps the author id as it is stored under \<open>original_author_id\<close>, and does
  not call the user service.
\<close>

theorem to_dict_projections:
  fixes names :: "string \<Rightarrow> string option" and ms :: "'dt \<Rightarrow> int"
  shows
  "(\<exists>d. fst (FeedbackThread_to_dict (\<lambda>uid. Inr (names uid)) (\<lambda>x. Inr (ms x)) t) = Inr d
      \<and> map fst d = [''last_updated_msecs'', ''original_author_username'', ''state_name'',
           ''status'', ''subject'', ''summary'', ''thread_id'', ''message_count'',
           ''last_nonempty_message_text'', ''last_nonempty_message_author'']
      \<and> map_of d ''last_updated_msecs'' = Some (PyInt (ms (ft_last_updated t)))
      \<and> map_of d ''original_author_username'' =
           Some (case ft_original_author_id t of None \<Rightarrow> PyNone
                 | Some uid \<Rightarrow> if uid = [] then PyNone else opt_str (names uid))
      \<and> map_of d ''last_nonempty_message_author'' =
           Some (case ft_last_nonempty_message_author_id t of None \<Rightarrow> PyNone
                 | Some uid \<Rightarrow> if uid = [] then PyNone else opt_str (names uid)))
   \<and> (CHR ''.'' \<in> set (fm_id m) \<longrightarrow>
        (\<exists>d. fst (FeedbackMessage_to_dict (\<lambda>uid. Inr (names uid)) (\<lambda>x. Inr (ms x)) m) = Inr d
          \<and> map fst d = [''author_username'', ''created_on_msecs'', ''entity_type'',
               ''entity_id'', ''message_id'', ''text'', ''updated_status'', ''updated_subject'']
          \<and> map_of d ''created_on_msecs'' = Some (PyInt (ms (fm_created_on m)))
          \<and> map_of d ''author_username'' =
               Some (case fm_author_id m of None \<Rightarrow> PyNone
                     | Some uid \<Rightarrow> if uid = [] then PyNone else opt_str (names uid))))
   \<and> (\<exists>d. FeedbackThreadSummary_to_dict (\<lambda>uid. Inr (names uid)) (\<lambda>x. Inr (ms x)) s
             = (Inr d, [])
      \<and> map fst d = [''status'', ''original_author_id'', ''last_updated_msecs'',
           ''last_message_text'', ''total_message_count'', ''last_message_is_read'',
           ''second_last_message_is_read'', ''author_last_message'',
           ''author_second_last_message'', ''exploration_title'', ''exploration_id'',
           ''thread_id'']
      \<and> map_of d ''last_updated_msecs'' = Some (PyInt (ms (fs_last_updated s)))
      \<and> map_of d ''original_author_id'' = Some (opt_str (fs_original_author_id s)))"
proof -
  have thread: "\<exists>d. fst (FeedbackThread_to_dict (\<lambda>uid. Inr (names uid)) (\<lambda>x. Inr (ms x)) t) = Inr d
      \<and> map fst d = [''last_updated_msecs'', ''original_author_username'', ''state_name'',
           ''status'', ''subject'', ''summary'', ''thread_id'', ''message_count'',
           ''last_nonempty_message_text'', ''last_nonempty_message_author'']
      \<and> map_of d ''last_updated_msecs'' = Some (PyInt (ms (ft_last_updated t)))
      \<and> map_of d ''original_author_username'' =
           Some (case ft_original_author_id t of None \<Rightarrow> PyNone
                 | Some uid \<Rightarrow> if uid = [] then PyNone else opt_str (names uid))
      \<and> map_of d ''last_nonempty_message_author'' =
           Some (case ft_last_nonempty_message_author_id t of None \<Rightarrow> PyNone
                 | Some uid \<Rightarrow> if uid = [] then PyNone else opt_str (names uid))"
    by (simp add: FeedbackThread_to_dict_def username_or_none_total)
  have message: "CHR ''.'' \<in> set (fm_id m) \<longrightarrow>
        (\<exists>d. fst (FeedbackMessage_to_dict (\<lambda>uid. Inr (names uid)) (\<lambda>x. Inr (ms x)) m) = Inr d
          \<and> map fst d = [''author_username'', ''created_on_msecs'', ''entity_type'',
               ''entity_id'', ''message_id'', ''text'', ''updated_status'', ''updated_subject'']
          \<and> map_of d ''created_on_msecs'' = Some (PyInt (ms (fm_created_on m)))
          \<and> map_of d ''author_username'' =
               Some (case fm_author_id m of None \<Rightarrow> PyNone
                     | Some uid \<Rightarrow> if uid = [] then PyNone else opt_str (names uid)))"
  proof
    assume dot: "CHR ''.'' \<in> set (fm_id m)"
    then obtain x y where xy: "entity_type m = Inr x" "entity_id m = Inr y"
      using entity_fields_with_dot[of m] by blast
    show "\<exists>d. fst (FeedbackMessage_to_dict (\<lambda>uid. Inr (names uid)) (\<lambda>x. Inr (ms x)) m) = Inr d
          \<and> map fst d = [''author_username'', ''created_on_msecs'', ''entity_type'',
               ''entity_id'', ''message_id'', ''text'', ''updated_status'', ''updated_subject'']
          \<and> map_of d ''created_on_msecs'' = Some (PyInt (ms (fm_created_on m)))
          \<and> map_of d ''author_username'' =
               Some (case fm_author_id m of None \<Rightarrow> PyNone
                     | Some uid \<Rightarrow> if uid = [] then PyNone else opt_str (names uid))"
      by (simp add: FeedbackMessage_to_dict_def username_or_none_total xy)
  qed
  have summary: "\<exists>d. FeedbackThreadSummary_to_dict (\<lambda>uid. Inr (names uid)) (\<lambda>x. Inr (ms x)) s
             = (Inr d, [])
      \<and> map fst d = [''status'', ''original_author_id'', ''last_updated_msecs'',
           ''last_message_text'', ''total_message_count'', ''last_message_is_read'',
           ''second_last_message_is_read'', ''author_last_message'',
           ''author_second_last_message'', ''exploration_title'', ''exploration_id'',
           ''thread_id'']
      \<and> map_of d ''last_updated_msecs'' = Some (PyInt (ms (fs_last_updated s)))
      \<and> map_of d ''original_author_id'' = Some (opt_str (fs_original_author_id s))"
    by (simp add: FeedbackThreadSummary_to_dict_def)
  from thread message summary show ?thesis by blast
qed

theorem to_dict_projections_witness:
  "CHR ''.'' \<in> set (fm_id (example_message ''exploration.abc123.4'' (Some ''uid_1'')))
   \<and> FeedbackMessage_to_dict (\<lambda>uid. Inr (example_names uid)) (\<lambda>x. Inr (example_msecs x))
        (example_message ''exploration.abc123.4'' (Some ''uid_1'')) =
      (Inr [(''author_username'', PyStr ''alice''),
            (''created_on_msecs'', PyInt 1000000),
            (''entity_type'', PyStr ''exploration''),
            (''entity_id'', PyStr ''abc123''),
            (''message_id'', PyStr ''4''),
            (''text'', PyStr ''Hello''),
            (''updated_status'', PyNone),
            (''updated_subject'', PyNone)], [''uid_1''])
   \<and> FeedbackThread_to_dict (\<lambda>uid. Inr (example_names uid)) (\<lambda>x. Inr (example_msecs x))
        (example_thread 2) =
      (Inr [(''last_updated_msecs'', PyInt 2000000),
            (''original_author_username'', PyNone),
            (''state_name'', PyStr ''Intro''),
            (''status'', PyStr ''open''),
            (''subject'', PyStr ''Typo''),
            (''summary'', PyStr ''A typo''),
            (''thread_id'', PyStr ''exploration.abc123.t1''),
            (''message_count'', PyInt 2),
            (''last_nonempty_message_text'', PyStr ''Fixed''),
            (''last_nonempty_message_author'', PyStr ''bob'')], [''uid_2''])"
  using to_dict_projections
      [of example_names example_msecs "example_thread 2"
          "example_message ''exploration.abc123.4'' (Some ''uid_1'')" example_summary]
  by (simp add: example_message_def FeedbackMessage_init_def example_thread_def
      example_names_def example_msecs_def FeedbackMessage_to_dict_def
      FeedbackThread_to_dict_def username_or_none_def entity_type_def entity_id_def
      py_getitem_def opt_str_def)

text \<open>
  C6. Whatever the user service and the time conversion do: when an author id of a
  thread or of a message is null (\<open>None\<close>; the empty string counts as null too), the
  user service is not called for it (the only id that \<open>to_dict\<close> of a thread may pass
  to it is the other author id, at most once, and \<open>to_dict\<close> of a message passes none),
  and every dictionary that \<open>to_dict\<close> returns has the username key of that field, bound
  to null. With both author ids of a thread null, \<open>to_dict\<close> returns a dictionary as soon
  as the time conversion returns, and so does \<open>to_dict\<close> of a message whose id has a
  \<open>'.'\<close>.
\<close>

theorem null_author_id_gives_null_username:
  "(\<not> truthy (ft_original_author_id t) \<longrightarrow>
      set (snd (FeedbackThread_to_dict gu gt t))
        \<subseteq> set_option (ft_last_nonempty_message_author_id t)
      \<and> length (snd (FeedbackThread_to_dict gu gt t)) \<le> 1
      \<and> (\<forall>d. fst (FeedbackThread_to_dict gu gt t) = Inr d \<longrightarrow>
            map_of d ''original_author_username'' = Some PyNone))
   \<and> (\<not> truthy (ft_last_nonempty_message_author_id t) \<longrightarrow>
      set (snd (FeedbackThread_to_dict gu gt t)) \<subseteq> set_option (ft_original_author_id t)
      \<and> length (snd (FeedbackThread_to_dict gu gt t)) \<le> 1
      \<and> (\<forall>d. fst (FeedbackThread_to_dict gu gt t) = Inr d \<longrightarrow>
            map_of d ''last_nonempty_message_author'' = Some PyNone))
   \<and> (\<not> truthy (fm_author_id m) \<longrightarrow>
      snd (FeedbackMessage_to_dict gu gt m) = []
      \<and> (\<forall>d. fst (FeedbackMessage_to_dict gu gt m) = Inr d \<longrightarrow>
            map_of d ''author_username'' = Some PyNone))
   \<and> (\<not> truthy (ft_original_author_id t) \<and> \<not> truthy (ft_last_nonempty_message_author_id t)
        \<and> gt (ft_last_updated t) = Inr msecs \<longrightarrow>
      (\<exists>d. FeedbackThread_to_dict gu gt t = (Inr d, [])))
   \<and> (\<not> truthy (fm_author_id m) \<and> gt (fm_created_on m) = Inr msecs'
        \<and> CHR ''.'' \<in> set (fm_id m) \<longrightarrow>
      (\<exists>d. FeedbackMessage_to_dict gu gt m = (Inr d, [])))"
proof -
  have p4: "\<not> truthy (ft_original_author_id t) \<and> \<not> truthy (ft_last_nonempty_message_author_id t)
        \<and> gt (ft_last_updated t) = Inr msecs \<longrightarrow>
      (\<exists>d. FeedbackThread_to_dict gu gt t = (Inr d, []))"
    by (simp add: FeedbackThread_to_dict_def username_or_none_falsy)
  have p5: "\<not> truthy (fm_author_id m) \<and> gt (fm_created_on m) = Inr msecs'
        \<and> CHR ''.'' \<in> set (fm_id m) \<longrightarrow>
      (\<exists>d. FeedbackMessage_to_dict gu gt m = (Inr d, []))"
  proof
    assume a: "\<not> truthy (fm_author_id m) \<and> gt (fm_created_on m) = Inr msecs'
        \<and> CHR ''.'' \<in> set (fm_id m)"
    then obtain x y where "entity_type m = Inr x" "entity_id m = Inr y"
      using entity_fields_with_dot[of m] by blast
    with a show "\<exists>d. FeedbackMessage_to_dict gu gt m = (Inr d, [])"
      by (simp add: FeedbackMessage_to_dict_def username_or_none_falsy)
  qed
  show ?thesis
    using thread_to_dict_original_null[of t gu gt] thread_to_dict_last_null[of t gu gt]
      message_to_dict_author_null[of m gu gt] p4 p5
    by blast
qed

theorem null_author_id_gives_null_username_witness:
  "\<not> truthy (ft_original_author_id (example_thread 2))
   \<and> FeedbackThread_to_dict (\<lambda>uid. Inr (example_names uid)) (\<lambda>x. Inr (example_msecs x))
        (example_thread 2) =
      (Inr [(''last_updated_msecs'', PyInt 2000000),
            (''original_author_username'', PyNone),
            (''state_name'', PyStr ''Intro''),
            (''status'', PyStr ''open''),
            (''subject'', PyStr ''Typo''),
            (''summary'', PyStr ''A typo''),
            (''thread_id'', PyStr ''exploration.abc123.t1''),
            (''message_count'', PyInt 2),
            (''last_nonempty_message_text'', PyStr ''Fixed''),
            (''last_nonempty_message_author'', PyStr ''bob'')], [''uid_2''])
   \<and> \<not> truthy (ft_last_nonempty_message_author_id
          ((example_thread 2)\<lparr>ft_last_nonempty_message_author_id := None\<rparr>))
   \<and> FeedbackThread_to_dict failing_get_username (\<lambda>x. Inr (example_msecs x))
        ((example_thread 2)\<lparr>ft_last_nonempty_message_author_id := None\<rparr>) =
      (Inr [(''last_updated_msecs'', PyInt 2000000),
            (''original_author_username'', PyNone),
            (''state_name'', PyStr ''Intro''),
            (''status'', PyStr ''open''),
            (''subject'', PyStr ''Typo''),
            (''summary'', PyStr ''A typo''),
            (''thread_id'', PyStr ''exploration.abc123.t1''),
            (''message_count'', PyInt 2),
            (''last_nonempty_message_text'', PyStr ''Fixed''),
            (''last_nonempty_message_author'', PyNone)], [])
   \<and> \<not> truthy (fm_author_id (example_message ''exploration.abc123.4'' None))
   \<and> FeedbackMessage_to_dict failing_get_username (\<lambda>x. Inr (example_msecs x))
        (example_message ''exploration.abc123.4'' None) =
      (Inr [(''author_username'', PyNone),
            (''created_on_msecs'', PyInt 1000000),
            (''entity_type'', PyStr ''exploration''),
            (''entity_id'', PyStr ''abc123''),
            (''message_id'', PyStr ''4''),
            (''text'', PyStr ''Hello''),
            (''updated_status'', PyNone),
            (''updated_subject'', PyNone)], [])"
  using null_author_id_gives_null_username
      [of "example_thread 2" "\<lambda>uid. Inr (example_names uid)" "\<lambda>x. Inr (example_msecs x)"
          "example_message ''exploration.abc123.4'' None" 2000000 1000000]
    null_author_id_gives_null_username
      [of "(example_thread 2)\<lparr>ft_last_nonempty_message_author_id := None\<rparr>"
          failing_get_username "\<lambda>x. Inr (example_msecs x)"
          "example_message ''exploration.abc123.4'' None" 2000000 1000000]
  by (simp add: example_message_def FeedbackMessage_init_def example_thread_def
      example_names_def example_msecs_def failing_get_username_def truthy_def
      FeedbackMessage_to_dict_def FeedbackThread_to_dict_def username_or_none_def
      entity_type_def entity_id_def py_getitem_def opt_str_def)

section \<open>The improvements handlers\<close>

lemma dict_getitem_present:
  "k \<in> fst ` set d \<Longrightarrow> \<exists>v. dict_getitem d k = Inr v \<and> map_of d k = Some v"
  by (cases "map_of d k") (auto simp: dict_getitem_def map_of_eq_None_iff)

lemma post_loop_missing_key:
  assumes "k \<in> {''entity_version'', ''task_type'', ''target_id'', ''status''}"
    and "k \<notin> fst ` set task_entry"
  shows "post_loop utcnow exploration_id user_id (task_entry # rest) acc n = Inl KeyError"
proof -
  have "map_of task_entry k = None"
    using assms(2) by (simp add: map_of_eq_None_iff)
  then show ?thesis
    using assms(1)
    by (auto simp: dict_getitem_def split: option.splits sum.splits)
qed

lemma post_loop_ok:
  assumes "\<forall>task_entry \<in> set items.
     {''entity_version'', ''task_type'', ''target_id'', ''status''} \<subseteq> fst ` set task_entry"
  shows "\<exists>new. post_loop utcnow exploration_id user_id items acc k = Inr (acc @ new)
     \<and> length new = length items
     \<and> (\<forall>j < length items.
           entry_built_from exploration_id user_id (utcnow (k + j)) (items ! j) (new ! j))"
  using assms
proof (induction items arbitrary: acc k)
  case Nil
  then show ?case by simp
next
  case (Cons task_entry rest)
  from Cons.prems obtain v1 v2 v3 v4 where
    v: "dict_getitem task_entry ''entity_version'' = Inr v1"
       "map_of task_entry ''entity_version'' = Some v1"
       "dict_getitem task_entry ''task_type'' = Inr v2"
       "map_of task_entry ''task_type'' = Some v2"
       "dict_getitem task_entry ''target_id'' = Inr v3"
       "map_of task_entry ''target_id'' = Some v3"
       "dict_getitem task_entry ''status'' = Inr v4"
       "map_of task_entry ''status'' = Some v4"
    using dict_getitem_present[of "''entity_version''" task_entry]
      dict_getitem_present[of "''task_type''" task_entry]
      dict_getitem_present[of "''target_id''" task_entry]
      dict_getitem_present[of "''status''" task_entry]
    by auto
  define e where "e = TaskEntry_init TASK_ENTITY_TYPE_EXPLORATION exploration_id v1 v2
     TASK_TARGET_TYPE_STATE v3 (dict_get task_entry ''issue_description'' PyNone) v4
     user_id (utcnow k)"
  have step: "post_loop utcnow exploration_id user_id (task_entry # rest) acc k =
      post_loop utcnow exploration_id user_id rest (acc @ [e]) (Suc k)"
    by (simp add: v e_def)
  have e: "entry_built_from exploration_id user_id (utcnow k) task_entry e"
    by (simp add: entry_built_from_def e_def TaskEntry_init_def v dict_get_def
        TASK_ENTITY_TYPE_EXPLORATION_def TASK_TARGET_TYPE_STATE_def)
  from Cons.prems have "\<forall>task_entry \<in> set rest.
     {''entity_version'', ''task_type'', ''target_id'', ''status''} \<subseteq> fst ` set task_entry"
    by simp
  from Cons.IH[OF this, of "acc @ [e]" "Suc k"] obtain new where
    new: "post_loop utcnow exploration_id user_id rest (acc @ [e]) (Suc k)
            = Inr ((acc @ [e]) @ new)"
      "length new = length rest"
      "\<forall>j < length rest.
         entry_built_from exploration_id user_id (utcnow (Suc k + j)) (rest ! j) (new ! j)"
    by blast
  have all: "\<forall>j < length (task_entry # rest).
      entry_built_from exploration_id user_id (utcnow (k + j))
        ((task_entry # rest) ! j) ((e # new) ! j)"
  proof (intro allI impI)
    fix j assume "j < length (task_entry # rest)"
    then show "entry_built_from exploration_id user_id (utcnow (k + j))
        ((task_entry # rest) ! j) ((e # new) ! j)"
      using e new(3) by (cases j) auto
  qed
  show ?case
    using step new(1,2) all
    by (intro exI[of _ "e # new"]) simp
qed

text \<open>
  C7. For a POST request whose \<open>task_entries\<close> list has \<open>k\<close> items, each with the keys
  \<open>entity_version\<close>, \<open>task_type\<close>, \<open>target_id\<close> and \<open>status\<close> that the schema
  requires: the handler builds one \<open>TaskEntry\<close> for each item, in order (entity type
  exploration, the exploration id of the request, target type state, the target id of the
  item, and the issue description of the item or \<open>None\<close> when the item has none), hands
  this batch of \<open>k\<close> entries to \<open>put_tasks\<close> in one call, and renders the empty JSON
  object. For the empty list the batch is empty: no task entry is submitted, and the
  empty object is rendered.
\<close>

theorem post_submits_one_entry_per_item:
  assumes "\<forall>task_entry \<in> set (req_task_entries self).
     {''entity_version'', ''task_type'', ''target_id'', ''status''} \<subseteq> fst ` set task_entry"
  shows "\<exists>batch.
     ExplorationImprovementsHandler_post utcnow self exploration_id world =
       Inr (world\<lparr>put_tasks_calls := put_tasks_calls world @ [batch],
                  rendered := rendered world @ [[]]\<rparr>)
     \<and> length batch = length (req_task_entries self)
     \<and> (\<forall>j < length (req_task_entries self).
           entry_built_from exploration_id (req_user_id self) (utcnow j)
             (req_task_entries self ! j) (batch ! j))
     \<and> (req_task_entries self = [] \<longrightarrow> batch = [])"
proof -
  from post_loop_ok[OF assms, of utcnow exploration_id "req_user_id self" "[]" 0]
  obtain new where
    new: "post_loop utcnow exploration_id (req_user_id self) (req_task_entries self) [] 0
            = Inr new"
      "length new = length (req_task_entries self)"
      "\<forall>j < length (req_task_entries self).
         entry_built_from exploration_id (req_user_id self) (utcnow j)
           (req_task_entries self ! j) (new ! j)"
    by auto
  show ?thesis
    using new
    by (intro exI[of _ new]) (auto simp: ExplorationImprovementsHandler_post_def)
qed

theorem post_submits_one_entry_per_item_witness:
  "map (map fst) example_task_entries =
     [[''entity_version'', ''task_type'', ''target_id'', ''status''],
      [''entity_version'', ''task_type'', ''target_id'', ''issue_description'', ''status'']]
   \<and> ExplorationImprovementsHandler_post (\<lambda>k. 5000 + int k)
        \<lparr>req_user_id = Some ''uid_1'', req_task_entries = example_task_entries\<rparr> ''abc123''
        \<lparr>put_tasks_calls = [], rendered = []\<rparr> =
      Inr \<lparr>put_tasks_calls =
             [[\<lparr>te_entity_type = ''exploration'', te_entity_id = ''abc123'',
                te_entity_version = PyInt 3, te_task_type = PyStr ''high_bounce_rate'',
                te_target_type = ''state'', te_target_id = PyStr ''Intro'',
                te_issue_description = PyNone, te_status = PyStr ''open'',
                te_resolver_id = Some ''uid_1'', te_resolved_on = 5000\<rparr>,
               \<lparr>te_entity_type = ''exploration'', te_entity_id = ''abc123'',
                te_entity_version = PyInt 3, te_task_type = PyStr ''high_bounce_rate'',
                te_target_type = ''state'', te_target_id = PyStr ''End'',
                te_issue_description = PyStr ''28% of learners dropped out'',
                te_status = PyStr ''resolved'',
                te_resolver_id = Some ''uid_1'', te_resolved_on = 5001\<rparr>]],
           rendered = [[]]\<rparr>
   \<and> ExplorationImprovementsHandler_post (\<lambda>k. 5000 + int k)
        \<lparr>req_user_id = Some ''uid_1'', req_task_entries = []\<rparr> ''abc123''
        \<lparr>put_tasks_calls = [], rendered = []\<rparr> =
      Inr \<lparr>put_tasks_calls = [[]], rendered = [[]]\<rparr>"
proof -
  have ok: "\<forall>task_entry \<in> set example_task_entries.
      {''entity_version'', ''task_type'', ''target_id'', ''status''} \<subseteq> fst ` set task_entry"
    by (simp add: example_task_entries_def)
  have ok': "\<forall>task_entry \<in> set (req_task_entries
       \<lparr>req_user_id = Some ''uid_1'', req_task_entries = example_task_entries\<rparr>).
      {''entity_version'', ''task_type'', ''target_id'', ''status''} \<subseteq> fst ` set task_entry"
    using ok by simp
  have e: "\<forall>task_entry \<in> set (req_task_entries
       \<lparr>req_user_id = Some ''uid_1'', req_task_entries = []\<rparr>).
      {''entity_version'', ''task_type'', ''target_id'', ''status''} \<subseteq> fst ` set task_entry"
    by simp
  show ?thesis
    using post_submits_one_entry_per_item
        [OF ok', of "\<lambda>k. 5000 + int k" "''abc123''" "\<lparr>put_tasks_calls = [], rendered = []\<rparr>"]
      post_submits_one_entry_per_item
        [OF e, of "\<lambda>k. 5000 + int k" "''abc123''" "\<lparr>put_tasks_calls = [], rendered = []\<rparr>"]
    by (simp add: example_task_entries_def ExplorationImprovementsHandler_post_def
        dict_getitem_def dict_get_def TaskEntry_init_def TASK_ENTITY_TYPE_EXPLORATION_def
        TASK_TARGET_TYPE_STATE_def)
qed

text \<open>
  C8. When the exploration is fetched, the GET of the config handler renders a JSON
  object with exactly six keys: \<open>exploration_id\<close>, bound to the path argument,
  \<open>exploration_version\<close>, bound to the version of the exploration fetched by this id,
  and \<open>is_improvements_tab_enabled\<close> and the three high bounce rate thresholds, each
  bound to the value of its config property in the registry.
\<close>

theorem config_get_response:
  assumes "get_exploration_by_id exploration_id = Inr exp"
  shows "\<exists>d. ExplorationImprovementsConfigHandler_get get_exploration_by_id config_domain
          exploration_id = Inr d
     \<and> map fst d = [''exploration_id'', ''exploration_version'',
          ''is_improvements_tab_enabled'',
          ''high_bounce_rate_task_state_bounce_rate_creation_threshold'',
          ''high_bounce_rate_task_state_bounce_rate_obsoletion_threshold'',
          ''high_bounce_rate_task_minimum_exploration_starts'']
     \<and> distinct (map fst d)
     \<and> map_of d ''exploration_id'' = Some (PyStr exploration_id)
     \<and> map_of d ''exploration_version'' = Some (PyInt (exp_version exp))
     \<and> map_of d ''is_improvements_tab_enabled'' =
          Some (IS_IMPROVEMENTS_TAB_ENABLED config_domain)
     \<and> map_of d ''high_bounce_rate_task_state_bounce_rate_creation_threshold'' =
          Some (HIGH_BOUNCE_RATE_TASK_STATE_BOUNCE_RATE_CREATION_THRESHOLD config_domain)
     \<and> map_of d ''high_bounce_rate_task_state_bounce_rate_obsoletion_threshold'' =
          Some (HIGH_BOUNCE_RATE_TASK_STATE_BOUNCE_RATE_OBSOLETION_THRESHOLD config_domain)
     \<and> map_of d ''high_bounce_rate_task_minimum_exploration_starts'' =
          Some (HIGH_BOUNCE_RATE_TASK_MINIMUM_EXPLORATION_STARTS config_domain)"
  using assms
  by (simp add: ExplorationImprovementsConfigHandler_get_def)

theorem config_get_response_witness:
  "example_get_exploration_by_id ''abc123'' = Inr \<lparr>exp_id = ''abc123'', exp_version = 7\<rparr>
   \<and> ExplorationImprovementsConfigHandler_get example_get_exploration_by_id example_config
        ''abc123'' =
      Inr [(''exploration_id'', PyStr ''abc123''),
           (''exploration_version'', PyInt 7),
           (''is_improvements_tab_enabled'', PyBool False),
           (''high_bounce_rate_task_state_bounce_rate_creation_threshold'', PyInt 25),
           (''high_bounce_rate_task_state_bounce_rate_obsoletion_threshold'', PyInt 20),
           (''high_bounce_rate_task_minimum_exploration_starts'', PyInt 100)]"
  using config_get_response
      [of example_get_exploration_by_id "''abc123''"
          "\<lparr>exp_id = ''abc123'', exp_version = 7\<rparr>" example_config]
  by (simp add: example_get_exploration_by_id_def example_config_def
      ExplorationImprovementsConfigHandler_get_def)

lemma config_get_fetch_raises:
  "get_exploration_by_id exploration_id = Inl e \<Longrightarrow>
   ExplorationImprovementsConfigHandler_get get_exploration_by_id config_domain
     exploration_id = Inl e"
  by (simp add: ExplorationImprovementsConfigHandler_get_def)

end
